theory Spec2Isabelle
  imports Main "HOL-Library.Word"
begin

unbundle bit_operations_syntax

section \<open>Protocol negotiation of rsync (compat.c)\<close>

text \<open>
  The development embeds \<^verbatim>\<open>check_sub_protocol\<close> and \<^verbatim>\<open>setup_protocol\<close> of
  \<^verbatim>\<open>compat.c\<close>. The C globals become two records: \<open>options\<close> holds the globals the
  two functions only read, \<open>state\<close> the ones they write, together with the two channels
  and the messages printed. A C \<open>int\<close> is an \<open>int\<close> here, tested against zero where the
  C code uses it as a truth value; the arithmetic of the two functions is a decrement, an
  increment and small sums of version numbers and counters, and signed overflow, which C
  leaves undefined, is outside the model.
\<close>

subsection \<open>Constants of the headers\<close>

text \<open>
  \<^verbatim>\<open>rsync.h\<close> and \<^verbatim>\<open>errcode.h\<close> define the constants the code names. They are
  parameters of the model; the flag constants are the bit masks handed to
  \<^verbatim>\<open>parse_rule\<close>, whose flag argument is a \<^verbatim>\<open>uint32\<close>.
\<close>

record header =
  PROTOCOL_VERSION :: int
  SUBPROTOCOL_VERSION :: int
  MIN_PROTOCOL_VERSION :: int
  OLD_PROTOCOL_VERSION :: int
  MAX_PROTOCOL_VERSION :: int
  PTR_EXTRA_LEN :: int
  MATCHFLG_NO_PREFIXES :: "32 word"
  MATCHFLG_DIRECTORY :: "32 word"
  MATCHFLG_PERISHABLE :: "32 word"
  RERR_PROTOCOL :: int

subsection \<open>Globals\<close>

text \<open>The \<^verbatim>\<open>extern\<close> globals that \<^verbatim>\<open>setup_protocol\<close> reads and never writes.\<close>

record options =
  verbose :: int
  am_server :: int
  am_sender :: int
  local_server :: int
  inplace :: int
  recurse :: int
  use_qsort :: int
  allow_inc_recurse :: int
  relative_paths :: int
  fuzzy_basis :: int
  read_batch :: int
  max_delete :: int
  implied_dirs :: int
  delay_updates :: int
  basis_dir_cnt :: int
  prune_empty_dirs :: int
  preserve_uid :: int
  preserve_gid :: int
  preserve_acls :: int
  preserve_xattrs :: int
  preserve_hard_links :: int
  delete_mode :: int
  delete_after :: int
  shell_cmd :: "string option"
  partial_dir :: "string option"
  dest_option :: "string option"

text \<open>
  The messages of the \<^verbatim>\<open>rprintf\<close> calls, one constructor for each format string,
  with the arguments of the call. The seven messages of the form
  ``\<open>X\<close> requires protocol \<open>N\<close> or higher (negotiated \<open>d\<close>)'' share one constructor
  that holds the subject \<open>X\<close>, the floor \<open>N\<close> and the negotiated version \<open>d\<close>.
\<close>

datatype logcode = FERROR | FINFO

datatype subject =
    Opt string
  | Dest_with_inplace "string option"
  | More_than_one_dest "string option"

datatype message =
    Batch_too_new int int
  | Protocol_versions string int int
  | Version_mismatch
  | See_man_page
  | Very_old string
  | Protocol_at_least int string
  | Protocol_no_more int string
  | Requires subject int int

text \<open>
  A rule handed to \<^verbatim>\<open>parse_rule\<close>: the pattern, the match flags and the last
  argument of the call.
\<close>

record rule =
  pattern :: string
  mflags :: "32 word"
  xflags :: int

text \<open>
  The globals that \<^verbatim>\<open>setup_protocol\<close> writes, and the world around it: the integers
  still to be read from \<^verbatim>\<open>f_in\<close>, the integers written to \<^verbatim>\<open>f_out\<close>, the
  messages printed, the rules given to \<^verbatim>\<open>parse_rule\<close> for \<^verbatim>\<open>filter_list\<close>, and
  the value that \<^verbatim>\<open>time(NULL)\<close> returns.
\<close>

record state =
  remote_protocol :: int
  file_extra_cnt :: int
  inc_recurse :: int
  protocol_version :: int
  checksum_seed :: int
  need_messages_from_generator :: int
  delete_before :: int
  delete_during :: int
  uid_ndx :: int
  gid_ndx :: int
  acls_ndx :: int
  xattrs_ndx :: int
  filter_list :: "rule list"
  f_in :: "int list"
  f_out :: "int list"
  msgs :: "(logcode \<times> message) list"
  clock :: int

text \<open>
  \<^verbatim>\<open>exit_cleanup\<close> ends the process with a status; \<^verbatim>\<open>read_int\<close> on an exhausted
  channel does not return either. Both are outcomes that keep the state reached.
\<close>

datatype outcome = Returned state | Exited int state | Io_failed state

fun state_of :: "outcome \<Rightarrow> state" where
  "state_of (Returned s) = s"
| "state_of (Exited n s) = s"
| "state_of (Io_failed s) = s"

fun then_do :: "outcome \<Rightarrow> (state \<Rightarrow> outcome) \<Rightarrow> outcome" where
  "then_do (Returned s) f = f s"
| "then_do (Exited n s) f = Exited n s"
| "then_do (Io_failed s) f = Io_failed s"

subsection \<open>The C library functions used\<close>

text \<open>
  A C string is the list of its characters before the terminating NUL.
  \<^verbatim>\<open>strchr\<close> gives the suffix that starts at the first occurrence of the character,
  or no pointer. \<^verbatim>\<open>atoi\<close> skips white space, reads an optional sign and then decimal
  digits up to the first character that is not one; the value is 0 when there is no digit.
  (C leaves the result undefined when it does not fit an \<^verbatim>\<open>int\<close>; the model gives
  the number read.)
\<close>

definition strchr :: "string \<Rightarrow> char \<Rightarrow> string option" where
  "strchr str ch = (if ch \<in> set str then Some (dropWhile (\<lambda>x. x \<noteq> ch) str) else None)"

definition isspace :: "char \<Rightarrow> bool" where
  "isspace ch \<longleftrightarrow> ch \<in> {CHR '' '', CHR 0x09, CHR 0x0A, CHR 0x0B, CHR 0x0C, CHR 0x0D}"

definition isdigit :: "char \<Rightarrow> bool" where
  "isdigit ch \<longleftrightarrow> ch \<in> set ''0123456789''"

fun digits_value :: "int \<Rightarrow> string \<Rightarrow> int" where
  "digits_value acc [] = acc"
| "digits_value acc (ch # cs) =
     (if isdigit ch then digits_value (acc * 10 + (of_char ch - 48)) cs else acc)"

definition atoi :: "string \<Rightarrow> int" where
  "atoi str =
     (case dropWhile isspace str of
        [] \<Rightarrow> 0
      | ch # cs \<Rightarrow>
          if ch = CHR ''-'' then - digits_value 0 cs
          else if ch = CHR ''+'' then digits_value 0 cs
          else digits_value 0 (ch # cs))"

subsection \<open>The calls into the rest of rsync\<close>

text \<open>
  Modelled from the spec: \<^verbatim>\<open>rprintf\<close> (log.c) is the error reporting the
  negotiation consumes through its interface; a call adds its message to the messages
  printed.
\<close>

definition rprintf :: "logcode \<Rightarrow> message \<Rightarrow> state \<Rightarrow> state" where
  "rprintf code m s = s\<lparr>msgs := msgs s @ [(code, m)]\<rparr>"

text \<open>
  Modelled from the spec: \<^verbatim>\<open>write_int\<close> (io.c) writes one integer to the channel;
  the value is added to what \<^verbatim>\<open>f_out\<close> has received.
\<close>

definition write_int :: "int \<Rightarrow> state \<Rightarrow> state" where
  "write_int v s = s\<lparr>f_out := f_out s @ [v]\<rparr>"

text \<open>
  Modelled from the spec: \<^verbatim>\<open>read_int\<close> (io.c) reads one integer from the channel, a
  blocking read whose failure is fatal; it takes the next integer of \<^verbatim>\<open>f_in\<close>, and
  there is no result when none is left.
\<close>

definition read_int :: "state \<Rightarrow> (int \<times> state) option" where
  "read_int s = (case f_in s of [] \<Rightarrow> None | v # rest \<Rightarrow> Some (v, s\<lparr>f_in := rest\<rparr>))"

text \<open>
  Modelled from the spec: \<^verbatim>\<open>parse_rule\<close> (exclude.c) is the insertion call into the
  external rule list, with a pattern, flags and one more argument; \<open>filter_list\<close>
  records the calls in their order.
\<close>

definition parse_rule :: "string \<Rightarrow> 32 word \<Rightarrow> int \<Rightarrow> state \<Rightarrow> state" where
  "parse_rule pat flags xf s =
     s\<lparr>filter_list := filter_list s @ [\<lparr>pattern = pat, mflags = flags, xflags = xf\<rparr>]\<rparr>"

subsection \<open>check_sub_protocol\<close>

text \<open>
  The condition of lines 73 to 75 assigns \<^verbatim>\<open>their_protocol\<close> and \<^verbatim>\<open>their_sub\<close>
  as it tests them. \<open>sub_hint\<close> is that condition: \<open>None\<close> when it holds (no
  \<^verbatim>\<open>shell_cmd\<close>, no dot in it, or one of the two numbers is 0), the two numbers
  otherwise.
\<close>

definition sub_hint :: "string option \<Rightarrow> (int \<times> int) option" where
  "sub_hint cmd =
     (case cmd of
        None \<Rightarrow> None
      | Some str \<Rightarrow>
          (case strchr str CHR ''.'' of
             None \<Rightarrow> None
           | Some dot \<Rightarrow>
               let their_protocol = atoi str in
               if their_protocol = 0 then None
               else let their_sub = atoi (tl dot) in
                 if their_sub = 0 then None else Some (their_protocol, their_sub)))"

text \<open>Line 71: the sub-protocol revision of this side.\<close>

definition our_sub :: "header \<Rightarrow> int \<Rightarrow> int" where
  "our_sub c pv = (if pv < PROTOCOL_VERSION c then 0 else SUBPROTOCOL_VERSION c)"

definition check_sub_protocol :: "header \<Rightarrow> options \<Rightarrow> state \<Rightarrow> state" where
  "check_sub_protocol c opt s =
     (let pv = protocol_version s; ours = our_sub c pv in
      case sub_hint (shell_cmd opt) of
        None \<Rightarrow> if ours \<noteq> 0 then s\<lparr>protocol_version := pv - 1\<rparr> else s
      | Some (their_protocol, their_sub) \<Rightarrow>
          if their_protocol < pv then
            (if their_sub \<noteq> 0 then s\<lparr>protocol_version := their_protocol - 1\<rparr> else s)
          else
            let their_sub' = (if their_protocol > pv then 0 else their_sub) in
            if their_sub' \<noteq> ours then s\<lparr>protocol_version := pv - 1\<rparr> else s)"

subsection \<open>setup_protocol\<close>

text \<open>Lines 95 to 106: the indexes into the extra-attribute array.\<close>

definition alloc_extras :: "header \<Rightarrow> options \<Rightarrow> state \<Rightarrow> state" where
  "alloc_extras c opt s =
     (let s1 = (if am_sender opt \<noteq> 0
                then s\<lparr>file_extra_cnt := file_extra_cnt s + PTR_EXTRA_LEN c\<rparr>
                else s\<lparr>file_extra_cnt := file_extra_cnt s + 1\<rparr>);
          s2 = (if preserve_uid opt \<noteq> 0
                then s1\<lparr>file_extra_cnt := file_extra_cnt s1 + 1, uid_ndx := file_extra_cnt s1 + 1\<rparr>
                else s1);
          s3 = (if preserve_gid opt \<noteq> 0
                then s2\<lparr>file_extra_cnt := file_extra_cnt s2 + 1, gid_ndx := file_extra_cnt s2 + 1\<rparr>
                else s2);
          s4 = (if preserve_acls opt \<noteq> 0 \<and> am_sender opt = 0
                then s3\<lparr>file_extra_cnt := file_extra_cnt s3 + 1, acls_ndx := file_extra_cnt s3 + 1\<rparr>
                else s3)
      in if preserve_xattrs opt \<noteq> 0
         then s4\<lparr>file_extra_cnt := file_extra_cnt s4 + 1, xattrs_ndx := file_extra_cnt s4 + 1\<rparr>
         else s4)"

text \<open>Lines 109 and 110: only a server with a remote client looks at the hint.\<close>

definition sub_protocol_step :: "header \<Rightarrow> options \<Rightarrow> state \<Rightarrow> state" where
  "sub_protocol_step c opt s =
     (if am_server opt \<noteq> 0 \<and> local_server opt = 0 then check_sub_protocol c opt s else s)"

text \<open>Lines 108 to 116: the exchange of the versions, skipped when the remote one is known.\<close>

definition exchange_versions :: "header \<Rightarrow> options \<Rightarrow> state \<Rightarrow> outcome" where
  "exchange_versions c opt s =
     (if remote_protocol s = 0 then
        let s1 = sub_protocol_step c opt s;
            s2 = (if read_batch opt = 0 then write_int (protocol_version s1) s1 else s1)
        in case read_int s2 of
             None \<Rightarrow> Io_failed s2
           | Some (v, s3) \<Rightarrow>
               let s4 = s3\<lparr>remote_protocol := v\<rparr> in
               Returned (if protocol_version s4 > remote_protocol s4
                         then s4\<lparr>protocol_version := remote_protocol s4\<rparr> else s4)
      else Returned s)"

text \<open>The name printed for a side.\<close>

definition side :: "options \<Rightarrow> string" where
  "side opt = (if am_server opt \<noteq> 0 then ''Server'' else ''Client'')"

definition other_side :: "options \<Rightarrow> string" where
  "other_side opt = (if am_server opt \<noteq> 0 then ''Client'' else ''Server'')"

text \<open>Lines 117 to 146: the checks of the two versions.\<close>

definition version_checks :: "header \<Rightarrow> options \<Rightarrow> state \<Rightarrow> outcome" where
  "version_checks c opt s =
     (if read_batch opt \<noteq> 0 \<and> remote_protocol s > protocol_version s then
        Exited (RERR_PROTOCOL c)
          (rprintf FERROR (Batch_too_new (remote_protocol s) (protocol_version s)) s)
      else
        let s1 = (if verbose opt > 3
                  then rprintf FINFO
                         (Protocol_versions (side opt) (remote_protocol s) (protocol_version s)) s
                  else s)
        in if remote_protocol s1 < MIN_PROTOCOL_VERSION c
              \<or> remote_protocol s1 > MAX_PROTOCOL_VERSION c then
             Exited (RERR_PROTOCOL c)
               (rprintf FERROR See_man_page (rprintf FERROR Version_mismatch s1))
           else
             let s2 = (if remote_protocol s1 < OLD_PROTOCOL_VERSION c
                       then rprintf FINFO (Very_old (other_side opt)) s1 else s1)
             in if protocol_version s2 < MIN_PROTOCOL_VERSION c then
                  Exited (RERR_PROTOCOL c)
                    (rprintf FERROR (Protocol_at_least (MIN_PROTOCOL_VERSION c) (side opt)) s2)
                else if protocol_version s2 > PROTOCOL_VERSION c then
                  Exited (RERR_PROTOCOL c)
                    (rprintf FERROR (Protocol_no_more (PROTOCOL_VERSION c) (side opt)) s2)
                else Returned s2)"

text \<open>Lines 148 to 170: the features that need protocol 30.\<close>

definition checks_30 :: "header \<Rightarrow> options \<Rightarrow> state \<Rightarrow> outcome" where
  "checks_30 c opt s =
     (if protocol_version s < 30 then
        if max_delete opt = 0 \<and> am_sender opt \<noteq> 0 then
          Exited (RERR_PROTOCOL c)
            (rprintf FERROR (Requires (Opt ''--max-delete=0'') 30 (protocol_version s)) s)
        else if preserve_acls opt \<noteq> 0 \<and> local_server opt = 0 then
          Exited (RERR_PROTOCOL c)
            (rprintf FERROR (Requires (Opt ''--acls'') 30 (protocol_version s)) s)
        else if preserve_xattrs opt \<noteq> 0 \<and> local_server opt = 0 then
          Exited (RERR_PROTOCOL c)
            (rprintf FERROR (Requires (Opt ''--xattrs'') 30 (protocol_version s)) s)
        else Returned s
      else Returned s)"

text \<open>Lines 172 to 177: the default time of deletion.\<close>

definition delete_default :: "options \<Rightarrow> state \<Rightarrow> state" where
  "delete_default opt s =
     (if delete_mode opt \<noteq> 0 \<and> delete_before s + delete_during s + delete_after opt = 0 then
        if protocol_version s < 30 then s\<lparr>delete_before := 1\<rparr> else s\<lparr>delete_during := 1\<rparr>
      else s)"

text \<open>Lines 179 to 218: the features that need protocol 29, and incremental recursion.\<close>

definition checks_29 :: "header \<Rightarrow> options \<Rightarrow> state \<Rightarrow> outcome" where
  "checks_29 c opt s =
     (if protocol_version s < 29 then
        if fuzzy_basis opt \<noteq> 0 then
          Exited (RERR_PROTOCOL c)
            (rprintf FERROR (Requires (Opt ''--fuzzy'') 29 (protocol_version s)) s)
        else if basis_dir_cnt opt \<noteq> 0 \<and> inplace opt \<noteq> 0 then
          Exited (RERR_PROTOCOL c)
            (rprintf FERROR
               (Requires (Dest_with_inplace (dest_option opt)) 29 (protocol_version s)) s)
        else if basis_dir_cnt opt > 1 then
          Exited (RERR_PROTOCOL c)
            (rprintf FERROR
               (Requires (More_than_one_dest (dest_option opt)) 29 (protocol_version s)) s)
        else if prune_empty_dirs opt \<noteq> 0 then
          Exited (RERR_PROTOCOL c)
            (rprintf FERROR (Requires (Opt ''--prune-empty-dirs'') 29 (protocol_version s)) s)
        else Returned s
      else if protocol_version s \<ge> 30 then
        let s1 = (if recurse opt \<noteq> 0 \<and> allow_inc_recurse opt \<noteq> 0
                     \<and> preserve_hard_links opt = 0
                     \<and> delete_before s = 0 \<and> delete_after opt = 0 \<and> delay_updates opt = 0
                     \<and> (relative_paths opt = 0 \<or> implied_dirs opt \<noteq> 0) \<and> use_qsort opt = 0
                     \<and> prune_empty_dirs opt = 0
                  then s\<lparr>inc_recurse := 1\<rparr> else s)
        in Returned (s1\<lparr>need_messages_from_generator := 1\<rparr>)
      else Returned s)"

text \<open>Lines 220 to 225: the rule for the partial directory.\<close>

definition partial_dir_rule :: "header \<Rightarrow> options \<Rightarrow> state \<Rightarrow> state" where
  "partial_dir_rule c opt s =
     (case partial_dir opt of
        None \<Rightarrow> s
      | Some dir \<Rightarrow>
          if (case dir of [] \<Rightarrow> True | ch # _ \<Rightarrow> ch \<noteq> CHR ''/'')
             \<and> (am_server opt = 0 \<or> local_server opt \<noteq> 0) then
            let flags = MATCHFLG_NO_PREFIXES c OR MATCHFLG_DIRECTORY c;
                flags' = (if am_sender opt = 0 \<or> protocol_version s \<ge> 30
                          then flags OR MATCHFLG_PERISHABLE c else flags)
            in parse_rule dir flags' 0 s
          else s)"

text \<open>Lines 227 to 233: the checksum seed.\<close>

definition seed_exchange :: "options \<Rightarrow> state \<Rightarrow> outcome" where
  "seed_exchange opt s =
     (if am_server opt \<noteq> 0 then
        let s1 = (if checksum_seed s = 0 then s\<lparr>checksum_seed := clock s\<rparr> else s)
        in Returned (write_int (checksum_seed s1) s1)
      else
        case read_int s of
          None \<Rightarrow> Io_failed s
        | Some (v, s1) \<Rightarrow> Returned (s1\<lparr>checksum_seed := v\<rparr>))"

text \<open>
  The function is the sequence of its parts. \<open>negotiate_version\<close> is the function up to
  line 146, \<open>validate_features\<close> lines 148 to 218, \<open>finish\<close> the rest.
\<close>

definition negotiate_version :: "header \<Rightarrow> options \<Rightarrow> state \<Rightarrow> outcome" where
  "negotiate_version c opt s =
     then_do (exchange_versions c opt (alloc_extras c opt s)) (version_checks c opt)"

definition validate_features :: "header \<Rightarrow> options \<Rightarrow> state \<Rightarrow> outcome" where
  "validate_features c opt s =
     then_do (checks_30 c opt s) (\<lambda>s1. checks_29 c opt (delete_default opt s1))"

definition finish :: "header \<Rightarrow> options \<Rightarrow> state \<Rightarrow> outcome" where
  "finish c opt s = seed_exchange opt (partial_dir_rule c opt s)"

definition setup_protocol :: "header \<Rightarrow> options \<Rightarrow> state \<Rightarrow> outcome" where
  "setup_protocol c opt s =
     then_do (then_do (negotiate_version c opt s) (validate_features c opt)) (finish c opt)"

subsection \<open>Concrete inputs\<close>

text \<open>
  An instance of the header constants for running the model: protocol 30 with a given
  sub-protocol revision, the limits 20, 25 and 40, two extra slots for a pointer, three
  distinct flag bits and exit status 2.
\<close>

definition rsync_h :: "int \<Rightarrow> header" where
  "rsync_h sub = \<lparr>PROTOCOL_VERSION = 30, SUBPROTOCOL_VERSION = sub, MIN_PROTOCOL_VERSION = 20,
     OLD_PROTOCOL_VERSION = 25, MAX_PROTOCOL_VERSION = 40, PTR_EXTRA_LEN = 2,
     MATCHFLG_NO_PREFIXES = 512, MATCHFLG_DIRECTORY = 64, MATCHFLG_PERISHABLE = 524288,
     RERR_PROTOCOL = 2\<rparr>"

text \<open>A client that receives, with nothing requested and no limit on deletions.\<close>

definition default_options :: options where
  "default_options = \<lparr>verbose = 0, am_server = 0, am_sender = 0, local_server = 0, inplace = 0,
     recurse = 0, use_qsort = 0, allow_inc_recurse = 0, relative_paths = 0, fuzzy_basis = 0,
     read_batch = 0, max_delete = - 2147483648, implied_dirs = 0, delay_updates = 0,
     basis_dir_cnt = 0, prune_empty_dirs = 0, preserve_uid = 0, preserve_gid = 0,
     preserve_acls = 0, preserve_xattrs = 0, preserve_hard_links = 0, delete_mode = 0,
     delete_after = 0, shell_cmd = None, partial_dir = None, dest_option = None\<rparr>"

text \<open>
  The written globals as the C initializers leave them, with a given protocol version
  and given integers waiting on \<^verbatim>\<open>f_in\<close>.
\<close>

definition fresh_state :: "int \<Rightarrow> int list \<Rightarrow> state" where
  "fresh_state pv inp = \<lparr>remote_protocol = 0, file_extra_cnt = 0, inc_recurse = 0,
     protocol_version = pv, checksum_seed = 0, need_messages_from_generator = 0,
     delete_before = 0, delete_during = 0, uid_ndx = 0, gid_ndx = 0, acls_ndx = 0,
     xattrs_ndx = 0, filter_list = [], f_in = inp, f_out = [], msgs = [],
     clock = 1194000000\<rparr>"

lemmas hint_defs = sub_hint_def strchr_def atoi_def isspace_def isdigit_def

lemmas negotiate_defs =
  negotiate_version_def alloc_extras_def exchange_versions_def sub_protocol_step_def
  check_sub_protocol_def our_sub_def hint_defs version_checks_def rprintf_def write_int_def
  read_int_def side_def other_side_def Let_def

lemmas model_defs =
  setup_protocol_def validate_features_def finish_def negotiate_defs checks_30_def
  delete_default_def checks_29_def partial_dir_rule_def seed_exchange_def parse_rule_def

lemmas example_defs = rsync_h_def default_options_def fresh_state_def

section \<open>Properties of the parts\<close>

subsection \<open>The hint\<close>

text \<open>
  \<^verbatim>\<open>atoi\<close> gives 0 exactly when, after white space and one sign, no digit follows
  or all the digits that follow are zeros: the string has no number to read, or the number
  is zero.
\<close>

lemma isdigit_value: "isdigit ch \<Longrightarrow> (0::int) \<le> of_char ch - 48 \<and> (of_char ch - 48 = (0::int) \<longleftrightarrow> ch = CHR ''0'')"
  by (auto simp: isdigit_def)

lemma digits_value_ge: "0 \<le> acc \<Longrightarrow> acc \<le> digits_value acc cs"
proof (induction cs arbitrary: acc)
  case Nil
  then show ?case by simp
next
  case (Cons ch cs)
  show ?case
  proof (cases "isdigit ch")
    case True
    then have "acc \<le> acc * 10 + (of_char ch - 48)"
      using isdigit_value [of ch] Cons.prems by simp
    moreover have "acc * 10 + (of_char ch - 48) \<le> digits_value (acc * 10 + (of_char ch - 48)) cs"
      using isdigit_value [of ch] True Cons.prems by (intro Cons.IH) simp
    ultimately show ?thesis using True by simp
  next
    case False
    then show ?thesis by simp
  qed
qed

lemma digits_value_zero_iff:
  "0 \<le> acc \<Longrightarrow>
     digits_value acc cs = 0 \<longleftrightarrow> acc = 0 \<and> (\<forall>ch \<in> set (takeWhile isdigit cs). ch = CHR ''0'')"
proof (induction cs arbitrary: acc)
  case Nil
  then show ?case by simp
next
  case (Cons ch cs)
  show ?case
  proof (cases "isdigit ch")
    case True
    have nn: "0 \<le> acc * 10 + (of_char ch - 48)"
      using isdigit_value [of ch] True Cons.prems by simp
    have "acc * 10 + (of_char ch - 48) = 0 \<longleftrightarrow> acc = 0 \<and> ch = CHR ''0''"
      using isdigit_value [of ch] True Cons.prems by auto
    then show ?thesis
      using True Cons.IH [OF nn] by auto
  next
    case False
    then show ?thesis by simp
  qed
qed

lemma atoi_zero_iff:
  "atoi str = 0 \<longleftrightarrow>
     (\<forall>ch \<in> set (takeWhile isdigit
                    (case dropWhile isspace str of
                       [] \<Rightarrow> []
                     | ch # cs \<Rightarrow> if ch = CHR ''-'' \<or> ch = CHR ''+'' then cs else ch # cs)).
         ch = CHR ''0'')"
proof (cases "dropWhile isspace str")
  case Nil
  show ?thesis unfolding atoi_def Nil by simp
next
  case (Cons ch cs)
  show ?thesis
    unfolding atoi_def Cons
    using digits_value_zero_iff [of 0 cs] digits_value_zero_iff [of 0 "ch # cs"]
    by (simp del: digits_value.simps)
qed


lemma sub_hint_Some_nonzero:
  "sub_hint cmd = Some (a, b) \<Longrightarrow> a \<noteq> 0 \<and> b \<noteq> 0"
  by (auto simp: sub_hint_def strchr_def Let_def split: option.splits if_splits)

subsection \<open>What each part leaves as it is\<close>

lemma then_do_pres:
  assumes "P (state_of r)" and "\<And>s. r = Returned s \<Longrightarrow> P s \<Longrightarrow> P (state_of (f s))"
  shows "P (state_of (then_do r f))"
  using assms by (cases r) auto



lemma sub_protocol_step_keeps:
  "remote_protocol (sub_protocol_step c opt s) = remote_protocol s"
  "f_in (sub_protocol_step c opt s) = f_in s"
  "f_out (sub_protocol_step c opt s) = f_out s"
  "msgs (sub_protocol_step c opt s) = msgs s"
  "inc_recurse (sub_protocol_step c opt s) = inc_recurse s"
  "filter_list (sub_protocol_step c opt s) = filter_list s"
  "file_extra_cnt (sub_protocol_step c opt s) = file_extra_cnt s"
  "uid_ndx (sub_protocol_step c opt s) = uid_ndx s"
  "gid_ndx (sub_protocol_step c opt s) = gid_ndx s"
  "acls_ndx (sub_protocol_step c opt s) = acls_ndx s"
  "xattrs_ndx (sub_protocol_step c opt s) = xattrs_ndx s"
  by (simp_all add: sub_protocol_step_def check_sub_protocol_def Let_def
        split: option.splits prod.splits)

lemma alloc_extras_keeps:
  "protocol_version (alloc_extras c opt s) = protocol_version s"
  "remote_protocol (alloc_extras c opt s) = remote_protocol s"
  "f_in (alloc_extras c opt s) = f_in s"
  "f_out (alloc_extras c opt s) = f_out s"
  "msgs (alloc_extras c opt s) = msgs s"
  "inc_recurse (alloc_extras c opt s) = inc_recurse s"
  "filter_list (alloc_extras c opt s) = filter_list s"
  by (simp_all add: alloc_extras_def Let_def)

lemma sub_protocol_step_alloc_extras:
  "protocol_version (sub_protocol_step c opt (alloc_extras c opt s)) =
   protocol_version (sub_protocol_step c opt s)"
  by (simp add: sub_protocol_step_def check_sub_protocol_def Let_def alloc_extras_keeps
        split: option.splits prod.splits)

lemma exchange_versions_keeps:
  "file_extra_cnt (state_of (exchange_versions c opt s)) = file_extra_cnt s"
  "uid_ndx (state_of (exchange_versions c opt s)) = uid_ndx s"
  "gid_ndx (state_of (exchange_versions c opt s)) = gid_ndx s"
  "acls_ndx (state_of (exchange_versions c opt s)) = acls_ndx s"
  "xattrs_ndx (state_of (exchange_versions c opt s)) = xattrs_ndx s"
  "msgs (state_of (exchange_versions c opt s)) = msgs s"
  "inc_recurse (state_of (exchange_versions c opt s)) = inc_recurse s"
  "filter_list (state_of (exchange_versions c opt s)) = filter_list s"
  by (simp_all add: exchange_versions_def Let_def write_int_def read_int_def
        sub_protocol_step_keeps split: list.splits)


lemma exchange_versions_live:
  assumes "remote_protocol s = 0" and "f_in s = r # rest"
  shows "\<exists>t. exchange_versions c opt s = Returned t
           \<and> remote_protocol t = r
           \<and> protocol_version t = min (protocol_version (sub_protocol_step c opt s)) r
           \<and> f_in t = rest
           \<and> f_out t = (if read_batch opt = 0
                         then f_out s @ [protocol_version (sub_protocol_step c opt s)]
                         else f_out s)"
  using assms
  by (simp add: exchange_versions_def Let_def write_int_def read_int_def
        sub_protocol_step_keeps min_def)

lemma version_checks_keeps:
  "protocol_version (state_of (version_checks c opt s)) = protocol_version s"
  "remote_protocol (state_of (version_checks c opt s)) = remote_protocol s"
  "f_in (state_of (version_checks c opt s)) = f_in s"
  "f_out (state_of (version_checks c opt s)) = f_out s"
  "inc_recurse (state_of (version_checks c opt s)) = inc_recurse s"
  "filter_list (state_of (version_checks c opt s)) = filter_list s"
  "file_extra_cnt (state_of (version_checks c opt s)) = file_extra_cnt s"
  "uid_ndx (state_of (version_checks c opt s)) = uid_ndx s"
  "gid_ndx (state_of (version_checks c opt s)) = gid_ndx s"
  "acls_ndx (state_of (version_checks c opt s)) = acls_ndx s"
  "xattrs_ndx (state_of (version_checks c opt s)) = xattrs_ndx s"
  by (simp_all add: version_checks_def Let_def rprintf_def)

lemma checks_30_keeps:
  "protocol_version (state_of (checks_30 c opt s)) = protocol_version s"
  "remote_protocol (state_of (checks_30 c opt s)) = remote_protocol s"
  "f_in (state_of (checks_30 c opt s)) = f_in s"
  "f_out (state_of (checks_30 c opt s)) = f_out s"
  "inc_recurse (state_of (checks_30 c opt s)) = inc_recurse s"
  "filter_list (state_of (checks_30 c opt s)) = filter_list s"
  "file_extra_cnt (state_of (checks_30 c opt s)) = file_extra_cnt s"
  "uid_ndx (state_of (checks_30 c opt s)) = uid_ndx s"
  "gid_ndx (state_of (checks_30 c opt s)) = gid_ndx s"
  "acls_ndx (state_of (checks_30 c opt s)) = acls_ndx s"
  "xattrs_ndx (state_of (checks_30 c opt s)) = xattrs_ndx s"
  by (simp_all add: checks_30_def rprintf_def)

lemma delete_default_keeps:
  "protocol_version (delete_default opt s) = protocol_version s"
  "remote_protocol (delete_default opt s) = remote_protocol s"
  "f_in (delete_default opt s) = f_in s"
  "f_out (delete_default opt s) = f_out s"
  "msgs (delete_default opt s) = msgs s"
  "inc_recurse (delete_default opt s) = inc_recurse s"
  "filter_list (delete_default opt s) = filter_list s"
  "file_extra_cnt (delete_default opt s) = file_extra_cnt s"
  "uid_ndx (delete_default opt s) = uid_ndx s"
  "gid_ndx (delete_default opt s) = gid_ndx s"
  "acls_ndx (delete_default opt s) = acls_ndx s"
  "xattrs_ndx (delete_default opt s) = xattrs_ndx s"
  by (simp_all add: delete_default_def)

lemma checks_29_keeps:
  "protocol_version (state_of (checks_29 c opt s)) = protocol_version s"
  "remote_protocol (state_of (checks_29 c opt s)) = remote_protocol s"
  "f_in (state_of (checks_29 c opt s)) = f_in s"
  "f_out (state_of (checks_29 c opt s)) = f_out s"
  "filter_list (state_of (checks_29 c opt s)) = filter_list s"
  "file_extra_cnt (state_of (checks_29 c opt s)) = file_extra_cnt s"
  "uid_ndx (state_of (checks_29 c opt s)) = uid_ndx s"
  "gid_ndx (state_of (checks_29 c opt s)) = gid_ndx s"
  "acls_ndx (state_of (checks_29 c opt s)) = acls_ndx s"
  "xattrs_ndx (state_of (checks_29 c opt s)) = xattrs_ndx s"
  by (simp_all add: checks_29_def rprintf_def Let_def)

lemma partial_dir_rule_keeps:
  "protocol_version (partial_dir_rule c opt s) = protocol_version s"
  "remote_protocol (partial_dir_rule c opt s) = remote_protocol s"
  "f_in (partial_dir_rule c opt s) = f_in s"
  "f_out (partial_dir_rule c opt s) = f_out s"
  "msgs (partial_dir_rule c opt s) = msgs s"
  "inc_recurse (partial_dir_rule c opt s) = inc_recurse s"
  "file_extra_cnt (partial_dir_rule c opt s) = file_extra_cnt s"
  "uid_ndx (partial_dir_rule c opt s) = uid_ndx s"
  "gid_ndx (partial_dir_rule c opt s) = gid_ndx s"
  "acls_ndx (partial_dir_rule c opt s) = acls_ndx s"
  "xattrs_ndx (partial_dir_rule c opt s) = xattrs_ndx s"
  by (simp_all add: partial_dir_rule_def parse_rule_def Let_def split: option.splits)

lemma seed_exchange_keeps:
  "protocol_version (state_of (seed_exchange opt s)) = protocol_version s"
  "remote_protocol (state_of (seed_exchange opt s)) = remote_protocol s"
  "msgs (state_of (seed_exchange opt s)) = msgs s"
  "inc_recurse (state_of (seed_exchange opt s)) = inc_recurse s"
  "filter_list (state_of (seed_exchange opt s)) = filter_list s"
  "file_extra_cnt (state_of (seed_exchange opt s)) = file_extra_cnt s"
  "uid_ndx (state_of (seed_exchange opt s)) = uid_ndx s"
  "gid_ndx (state_of (seed_exchange opt s)) = gid_ndx s"
  "acls_ndx (state_of (seed_exchange opt s)) = acls_ndx s"
  "xattrs_ndx (state_of (seed_exchange opt s)) = xattrs_ndx s"
  by (simp_all add: seed_exchange_def write_int_def read_int_def Let_def split: list.splits)

subsection \<open>The parts in sequence\<close>

lemma validate_features_keeps:
  "protocol_version (state_of (validate_features c opt s)) = protocol_version s"
  "remote_protocol (state_of (validate_features c opt s)) = remote_protocol s"
  "f_in (state_of (validate_features c opt s)) = f_in s"
  "f_out (state_of (validate_features c opt s)) = f_out s"
  "filter_list (state_of (validate_features c opt s)) = filter_list s"
  "file_extra_cnt (state_of (validate_features c opt s)) = file_extra_cnt s"
  "uid_ndx (state_of (validate_features c opt s)) = uid_ndx s"
  "gid_ndx (state_of (validate_features c opt s)) = gid_ndx s"
  "acls_ndx (state_of (validate_features c opt s)) = acls_ndx s"
  "xattrs_ndx (state_of (validate_features c opt s)) = xattrs_ndx s"
  unfolding validate_features_def
  by (rule then_do_pres; simp add: checks_30_keeps checks_29_keeps delete_default_keeps)+

lemma finish_keeps:
  "protocol_version (state_of (finish c opt s)) = protocol_version s"
  "remote_protocol (state_of (finish c opt s)) = remote_protocol s"
  "msgs (state_of (finish c opt s)) = msgs s"
  "inc_recurse (state_of (finish c opt s)) = inc_recurse s"
  "file_extra_cnt (state_of (finish c opt s)) = file_extra_cnt s"
  "uid_ndx (state_of (finish c opt s)) = uid_ndx s"
  "gid_ndx (state_of (finish c opt s)) = gid_ndx s"
  "acls_ndx (state_of (finish c opt s)) = acls_ndx s"
  "xattrs_ndx (state_of (finish c opt s)) = xattrs_ndx s"
  by (simp_all add: finish_def seed_exchange_keeps partial_dir_rule_keeps)

lemma after_exchange_keeps:
  fixes r :: outcome and c :: header and opt :: options
  defines "t \<equiv> state_of (then_do (then_do (then_do r (version_checks c opt))
                       (validate_features c opt)) (finish c opt))"
  shows "protocol_version t = protocol_version (state_of r)"
    and "remote_protocol t = remote_protocol (state_of r)"
    and "file_extra_cnt t = file_extra_cnt (state_of r)"
    and "uid_ndx t = uid_ndx (state_of r)"
    and "gid_ndx t = gid_ndx (state_of r)"
    and "acls_ndx t = acls_ndx (state_of r)"
    and "xattrs_ndx t = xattrs_ndx (state_of r)"
  unfolding t_def
  by (rule then_do_pres, rule then_do_pres, rule then_do_pres;
      simp add: version_checks_keeps validate_features_keeps finish_keeps)+

lemma setup_protocol_unfold:
  "setup_protocol c opt s =
     then_do (then_do (then_do (exchange_versions c opt (alloc_extras c opt s))
       (version_checks c opt)) (validate_features c opt)) (finish c opt)"
  by (simp add: setup_protocol_def negotiate_version_def)

lemma setup_protocol_after_exchange:
  "protocol_version (state_of (setup_protocol c opt s)) =
     protocol_version (state_of (exchange_versions c opt (alloc_extras c opt s)))"
  "remote_protocol (state_of (setup_protocol c opt s)) =
     remote_protocol (state_of (exchange_versions c opt (alloc_extras c opt s)))"
  by (simp_all only: setup_protocol_unfold after_exchange_keeps)


subsection \<open>Hard links, slots and the features from protocol 30\<close>

lemma checks_29_hard_links:
  "preserve_hard_links opt \<noteq> 0 \<Longrightarrow> inc_recurse (state_of (checks_29 c opt s)) = inc_recurse s"
  by (simp add: checks_29_def rprintf_def Let_def)

lemma validate_features_hard_links:
  assumes "preserve_hard_links opt \<noteq> 0"
  shows "inc_recurse (state_of (validate_features c opt s)) = inc_recurse s"
  unfolding validate_features_def
  by (rule then_do_pres) (simp_all add: checks_30_keeps checks_29_hard_links [OF assms]
        delete_default_keeps)

lemma alloc_extras_sender_uid_xattrs:
  assumes "PTR_EXTRA_LEN c = 2" and "file_extra_cnt s = 0" and "am_sender opt \<noteq> 0"
    and "preserve_uid opt \<noteq> 0" and "preserve_xattrs opt \<noteq> 0"
    and "preserve_gid opt = 0" and "preserve_acls opt = 0"
  shows "alloc_extras c opt s = s\<lparr>file_extra_cnt := 4, uid_ndx := 3, xattrs_ndx := 4\<rparr>"
  using assms by (simp add: alloc_extras_def)

lemma setup_protocol_slots:
  "file_extra_cnt (state_of (setup_protocol c opt s)) = file_extra_cnt (alloc_extras c opt s)"
  "uid_ndx (state_of (setup_protocol c opt s)) = uid_ndx (alloc_extras c opt s)"
  "gid_ndx (state_of (setup_protocol c opt s)) = gid_ndx (alloc_extras c opt s)"
  "acls_ndx (state_of (setup_protocol c opt s)) = acls_ndx (alloc_extras c opt s)"
  "xattrs_ndx (state_of (setup_protocol c opt s)) = xattrs_ndx (alloc_extras c opt s)"
  by (simp_all only: setup_protocol_unfold after_exchange_keeps exchange_versions_keeps)

lemma checks_30_from_30:
  "30 \<le> protocol_version s \<Longrightarrow> checks_30 c opt s = Returned s"
  by (simp add: checks_30_def)

lemma checks_29_from_30:
  "30 \<le> protocol_version s \<Longrightarrow>
     \<exists>t. checks_29 c opt s = Returned t \<and> msgs t = msgs s"
  by (simp add: checks_29_def Let_def)

lemma validate_features_from_30:
  assumes "30 \<le> protocol_version s"
  shows "\<exists>t. validate_features c opt s = Returned t \<and> msgs t = msgs s"
  using checks_29_from_30 [of "delete_default opt s" c opt] assms
  by (simp add: validate_features_def checks_30_from_30 delete_default_keeps)

lemma finish_not_Exited: "finish c opt s \<noteq> Exited n t"
  by (simp add: finish_def seed_exchange_def Let_def read_int_def split: list.splits)

subsection \<open>What is written in replay mode\<close>

lemma exchange_versions_replay_out:
  "read_batch opt \<noteq> 0 \<Longrightarrow> f_out (state_of (exchange_versions c opt s)) = f_out s"
  by (simp add: exchange_versions_def Let_def read_int_def sub_protocol_step_keeps
        split: list.splits)

lemma before_finish_replay_out:
  assumes "read_batch opt \<noteq> 0"
  shows "f_out (state_of (then_do (negotiate_version c opt s) (validate_features c opt))) =
           f_out s"
  unfolding negotiate_version_def
  by (rule then_do_pres, rule then_do_pres)
     (simp_all add: exchange_versions_replay_out [OF assms] alloc_extras_keeps
        version_checks_keeps validate_features_keeps)

lemma seed_exchange_out:
  "f_out (state_of (seed_exchange opt s)) =
     f_out s @ (case seed_exchange opt s of
                  Returned t \<Rightarrow> if am_server opt \<noteq> 0 then [checksum_seed t] else []
                | Exited n t \<Rightarrow> [] | Io_failed t \<Rightarrow> [])"
  by (simp add: seed_exchange_def write_int_def read_int_def Let_def split: list.splits)

lemma finish_out:
  "f_out (state_of (finish c opt s)) =
     f_out s @ (case finish c opt s of
                  Returned t \<Rightarrow> if am_server opt \<noteq> 0 then [checksum_seed t] else []
                | Exited n t \<Rightarrow> [] | Io_failed t \<Rightarrow> [])"
  using seed_exchange_out [of opt "partial_dir_rule c opt s"]
  by (simp add: finish_def partial_dir_rule_keeps)

lemma setup_protocol_replay_out:
  assumes "read_batch opt \<noteq> 0"
  shows "f_out (state_of (setup_protocol c opt s)) =
     f_out s @ (case setup_protocol c opt s of
                  Returned t \<Rightarrow> if am_server opt \<noteq> 0 then [checksum_seed t] else []
                | Exited n t \<Rightarrow> [] | Io_failed t \<Rightarrow> [])"
proof (cases "then_do (negotiate_version c opt s) (validate_features c opt)")
  case (Returned u)
  then show ?thesis
    using before_finish_replay_out [OF assms, of c s] finish_out [of c opt u]
    by (simp add: setup_protocol_def)
next
  case (Exited n u)
  then show ?thesis
    using before_finish_replay_out [OF assms, of c s] by (simp add: setup_protocol_def)
next
  case (Io_failed u)
  then show ?thesis
    using before_finish_replay_out [OF assms, of c s] by (simp add: setup_protocol_def)
qed

lemma version_checks_replay_newer:
  assumes "read_batch opt \<noteq> 0" and "protocol_version s < remote_protocol s"
  shows "version_checks c opt s =
           Exited (RERR_PROTOCOL c)
             (rprintf FERROR (Batch_too_new (remote_protocol s) (protocol_version s)) s)"
  using assms by (simp add: version_checks_def)

subsection \<open>The rule for the partial directory\<close>

lemma partial_dir_rule_filter_list:
  "filter_list (partial_dir_rule c opt s) =
     (case partial_dir opt of
        None \<Rightarrow> filter_list s
      | Some dir \<Rightarrow>
          if (dir = [] \<or> hd dir \<noteq> CHR ''/'') \<and> (am_server opt = 0 \<or> local_server opt \<noteq> 0)
          then filter_list s @
                 [\<lparr>pattern = dir,
                   mflags = (if am_sender opt = 0 \<or> 30 \<le> protocol_version s
                             then (MATCHFLG_NO_PREFIXES c OR MATCHFLG_DIRECTORY c)
                                    OR MATCHFLG_PERISHABLE c
                             else MATCHFLG_NO_PREFIXES c OR MATCHFLG_DIRECTORY c),
                   xflags = 0\<rparr>]
          else filter_list s)"
  by (simp add: partial_dir_rule_def parse_rule_def Let_def split: option.splits list.splits)

lemma before_finish_keeps:
  "filter_list (state_of (then_do (negotiate_version c opt s) (validate_features c opt))) =
     filter_list s"
  unfolding negotiate_version_def
  by (rule then_do_pres, rule then_do_pres)
     (simp_all add: exchange_versions_keeps alloc_extras_keeps
        version_checks_keeps validate_features_keeps)

lemma finish_filter_list:
  "filter_list (state_of (finish c opt s)) = filter_list (partial_dir_rule c opt s)"
  by (simp add: finish_def seed_exchange_keeps)

section \<open>The claims\<close>

text \<open>
  Claim C1. When both sides are final releases and the exchange is live, the negotiated
  version is the smaller of the local version and the remote one. The exchange is live
  when the remote version is not yet known, \<^verbatim>\<open>read_batch\<close> is off and the channel
  delivers an integer \<open>r\<close>. Both sides are final releases when, on a server with a remote
  client, the sub-protocol revision of this side (line 71) is 0 and the condition of lines
  73 to 75 holds (no hint, or a hint with a zero number).
\<close>

theorem negotiated_version_is_min:
  assumes "remote_protocol s = 0" and "read_batch opt = 0" and "f_in s = r # rest"
    and "am_server opt \<noteq> 0 \<and> local_server opt = 0 \<longrightarrow>
           our_sub c (protocol_version s) = 0 \<and> sub_hint (shell_cmd opt) = None"
  shows "protocol_version (state_of (setup_protocol c opt s)) = min (protocol_version s) r
       \<and> remote_protocol (state_of (setup_protocol c opt s)) = r"
proof -
  have same: "protocol_version (sub_protocol_step c opt s) = protocol_version s"
    using assms(4) by (auto simp: sub_protocol_step_def check_sub_protocol_def Let_def)
  obtain t where t: "exchange_versions c opt (alloc_extras c opt s) = Returned t"
    "remote_protocol t = r"
    "protocol_version t = min (protocol_version (sub_protocol_step c opt (alloc_extras c opt s))) r"
    using exchange_versions_live [of "alloc_extras c opt s" r rest c opt] assms(1,3)
    by (auto simp: alloc_extras_keeps)
  show ?thesis
    using t same by (simp add: setup_protocol_after_exchange sub_protocol_step_alloc_extras)
qed

theorem negotiated_version_is_min_witness:
  "our_sub (rsync_h 0) (protocol_version (fresh_state 30 [29, 7])) = 0
   \<and> sub_hint (shell_cmd (default_options\<lparr>am_server := 1\<rparr>)) = None
   \<and> protocol_version (state_of (setup_protocol (rsync_h 0) (default_options\<lparr>am_server := 1\<rparr>)
        (fresh_state 30 [29, 7]))) = 29
   \<and> remote_protocol (state_of (setup_protocol (rsync_h 0) (default_options\<lparr>am_server := 1\<rparr>)
        (fresh_state 30 [29, 7]))) = 29"
  using negotiated_version_is_min [where c = "rsync_h 0"
      and opt = "default_options\<lparr>am_server := 1\<rparr>" and s = "fresh_state 30 [29, 7]"
      and r = 29 and rest = "[7]"]
  by (simp add: example_defs our_sub_def sub_hint_def)

text \<open>
  Claim C2, amended. The check of \<^verbatim>\<open>--prune-empty-dirs\<close> is inside
  \<^verbatim>\<open>if (protocol_version < 29)\<close>, so a negotiated version of 29 passes it. When the
  negotiated version is below 29, empty-directory pruning is requested and none of the
  checks made before it fails (\<^verbatim>\<open>--max-delete=0\<close> on the sender, \<^verbatim>\<open>--acls\<close> or
  \<^verbatim>\<open>--xattrs\<close> with a peer that is not local, \<^verbatim>\<open>--fuzzy\<close>, a basis directory with
  \<^verbatim>\<open>--inplace\<close>, more than one basis directory), the program exits with the protocol
  error status after printing the error that names \<^verbatim>\<open>--prune-empty-dirs\<close>, the floor
  29 and the negotiated version.
\<close>

theorem prune_empty_dirs_below_29:
  assumes "negotiate_version c opt start = Returned s"
    and "protocol_version s < 29" and "prune_empty_dirs opt \<noteq> 0"
    and "\<not> (max_delete opt = 0 \<and> am_sender opt \<noteq> 0)"
    and "\<not> (preserve_acls opt \<noteq> 0 \<and> local_server opt = 0)"
    and "\<not> (preserve_xattrs opt \<noteq> 0 \<and> local_server opt = 0)"
    and "fuzzy_basis opt = 0"
    and "\<not> (basis_dir_cnt opt \<noteq> 0 \<and> inplace opt \<noteq> 0)"
    and "basis_dir_cnt opt \<le> 1"
  shows "validate_features c opt s =
           Exited (RERR_PROTOCOL c)
             (rprintf FERROR (Requires (Opt ''--prune-empty-dirs'') 29 (protocol_version s))
                (delete_default opt s))
       \<and> setup_protocol c opt start =
           Exited (RERR_PROTOCOL c)
             (rprintf FERROR (Requires (Opt ''--prune-empty-dirs'') 29 (protocol_version s))
                (delete_default opt s))"
proof -
  have "checks_30 c opt s = Returned s"
    using assms(4,5,6) by (auto simp: checks_30_def)
  moreover have "checks_29 c opt (delete_default opt s) =
         Exited (RERR_PROTOCOL c)
           (rprintf FERROR (Requires (Opt ''--prune-empty-dirs'') 29 (protocol_version s))
              (delete_default opt s))"
    using assms(2,3,7,8,9) by (auto simp: checks_29_def delete_default_keeps)
  ultimately have "validate_features c opt s =
         Exited (RERR_PROTOCOL c)
           (rprintf FERROR (Requires (Opt ''--prune-empty-dirs'') 29 (protocol_version s))
              (delete_default opt s))"
    by (simp add: validate_features_def)
  then show ?thesis
    using assms(1) by (simp add: setup_protocol_def)
qed

theorem prune_empty_dirs_below_29_witness:
  "negotiate_version (rsync_h 0) (default_options\<lparr>prune_empty_dirs := 1\<rparr>)
       (fresh_state 30 [28, 7])
     = Returned (state_of (negotiate_version (rsync_h 0)
         (default_options\<lparr>prune_empty_dirs := 1\<rparr>) (fresh_state 30 [28, 7])))
   \<and> setup_protocol (rsync_h 0) (default_options\<lparr>prune_empty_dirs := 1\<rparr>)
         (fresh_state 30 [28, 7])
     = Exited 2 (state_of (setup_protocol (rsync_h 0)
         (default_options\<lparr>prune_empty_dirs := 1\<rparr>) (fresh_state 30 [28, 7])))
   \<and> msgs (state_of (setup_protocol (rsync_h 0) (default_options\<lparr>prune_empty_dirs := 1\<rparr>)
         (fresh_state 30 [28, 7])))
     = [(FERROR, Requires (Opt ''--prune-empty-dirs'') 29 28)]"
  using prune_empty_dirs_below_29 [where c = "rsync_h 0"
      and opt = "default_options\<lparr>prune_empty_dirs := 1\<rparr>" and start = "fresh_state 30 [28, 7]"
      and s = "state_of (negotiate_version (rsync_h 0)
         (default_options\<lparr>prune_empty_dirs := 1\<rparr>) (fresh_state 30 [28, 7]))"]
  by (simp add: example_defs negotiate_defs delete_default_def)

text \<open>
  The claim as it was written fails: with a local version of 30, a peer that announces 29
  and empty-directory pruning requested, the negotiated version is 29, nothing is
  printed and the function returns.
\<close>

theorem prune_at_29_counterexample:
  "setup_protocol (rsync_h 0) (default_options\<lparr>prune_empty_dirs := 1\<rparr>) (fresh_state 30 [29, 7])
     = Returned (state_of (setup_protocol (rsync_h 0) (default_options\<lparr>prune_empty_dirs := 1\<rparr>)
          (fresh_state 30 [29, 7])))
   \<and> remote_protocol (state_of (setup_protocol (rsync_h 0)
        (default_options\<lparr>prune_empty_dirs := 1\<rparr>) (fresh_state 30 [29, 7]))) = 29
   \<and> protocol_version (state_of (setup_protocol (rsync_h 0)
        (default_options\<lparr>prune_empty_dirs := 1\<rparr>) (fresh_state 30 [29, 7]))) = 29
   \<and> msgs (state_of (setup_protocol (rsync_h 0)
        (default_options\<lparr>prune_empty_dirs := 1\<rparr>) (fresh_state 30 [29, 7]))) = []"
  by (simp add: model_defs example_defs)

text \<open>
  Claim C3. On the sending side, with two slots for the pointer (\<^verbatim>\<open>PTR_EXTRA_LEN\<close> is
  2) and the counter at its initial 0, a request for owner ids and extended attributes,
  without group ids and ACLs, gives owner ids index 3, extended attributes index 4 and a
  final count of 4; the indexes for group ids and ACLs are not assigned. This holds for
  the state in which \<^verbatim>\<open>setup_protocol\<close> ends, however it ends.
\<close>

theorem slots_sender_uid_xattrs:
  assumes "PTR_EXTRA_LEN c = 2" and "file_extra_cnt s = 0" and "am_sender opt \<noteq> 0"
    and "preserve_uid opt \<noteq> 0" and "preserve_xattrs opt \<noteq> 0"
    and "preserve_gid opt = 0" and "preserve_acls opt = 0"
  shows "uid_ndx (state_of (setup_protocol c opt s)) = 3
       \<and> xattrs_ndx (state_of (setup_protocol c opt s)) = 4
       \<and> file_extra_cnt (state_of (setup_protocol c opt s)) = 4
       \<and> gid_ndx (state_of (setup_protocol c opt s)) = gid_ndx s
       \<and> acls_ndx (state_of (setup_protocol c opt s)) = acls_ndx s"
  by (simp add: setup_protocol_slots alloc_extras_sender_uid_xattrs [OF assms])

theorem slots_sender_uid_xattrs_witness:
  "PTR_EXTRA_LEN (rsync_h 0) = 2
   \<and> uid_ndx (state_of (setup_protocol (rsync_h 0)
        (default_options\<lparr>am_sender := 1, preserve_uid := 1, preserve_xattrs := 1\<rparr>)
        (fresh_state 30 [30, 7]))) = 3
   \<and> xattrs_ndx (state_of (setup_protocol (rsync_h 0)
        (default_options\<lparr>am_sender := 1, preserve_uid := 1, preserve_xattrs := 1\<rparr>)
        (fresh_state 30 [30, 7]))) = 4
   \<and> file_extra_cnt (state_of (setup_protocol (rsync_h 0)
        (default_options\<lparr>am_sender := 1, preserve_uid := 1, preserve_xattrs := 1\<rparr>)
        (fresh_state 30 [30, 7]))) = 4"
  using slots_sender_uid_xattrs [where c = "rsync_h 0"
      and opt = "default_options\<lparr>am_sender := 1, preserve_uid := 1, preserve_xattrs := 1\<rparr>"
      and s = "fresh_state 30 [30, 7]"]
  by (simp add: example_defs)





text \<open>
  Claim C6. When hard links are to be preserved, incremental recursion stays off:
  \<^verbatim>\<open>inc_recurse\<close>, 0 initially, is 0 in the state in which \<^verbatim>\<open>setup_protocol\<close> ends,
  whatever the other options and whatever the negotiated version, 30 and above included.
\<close>

theorem hard_links_exclude_inc_recurse:
  assumes "preserve_hard_links opt \<noteq> 0" and "inc_recurse s = 0"
  shows "inc_recurse (state_of (setup_protocol c opt s)) = 0"
  unfolding setup_protocol_unfold
  by (rule then_do_pres, rule then_do_pres, rule then_do_pres)
     (simp_all add: exchange_versions_keeps alloc_extras_keeps version_checks_keeps
        validate_features_hard_links [OF assms(1)] finish_keeps assms(2))

theorem hard_links_exclude_inc_recurse_witness:
  "inc_recurse (state_of (setup_protocol (rsync_h 0)
      (default_options\<lparr>recurse := 1, allow_inc_recurse := 1, preserve_hard_links := 1\<rparr>)
      (fresh_state 30 [30, 7]))) = 0"
  using hard_links_exclude_inc_recurse [where c = "rsync_h 0"
      and opt = "default_options\<lparr>recurse := 1, allow_inc_recurse := 1, preserve_hard_links := 1\<rparr>"
      and s = "fresh_state 30 [30, 7]"]
  by (simp add: example_defs)

text \<open>
  Claim C7. In replay mode (\<^verbatim>\<open>read_batch\<close> set), when the recorded remote version is
  above the version this side works with, \<^verbatim>\<open>setup_protocol\<close> prints the error about a
  batch file that is too new and exits with the protocol error status, having written
  nothing. The recorded version is the integer read from \<^verbatim>\<open>f_in\<close>, compared with the
  version after lines 109 and 110, or the remote version already known. In replay mode
  the version is never written: all that \<^verbatim>\<open>f_out\<close> can receive is the checksum seed
  that a server writes when the function returns.
\<close>

theorem replay_newer_version_fails:
  assumes "read_batch opt \<noteq> 0"
  shows "(remote_protocol s = 0 \<and> f_in s = r # rest
            \<and> protocol_version (sub_protocol_step c opt s) < r \<longrightarrow>
          (\<exists>t. setup_protocol c opt s = Exited (RERR_PROTOCOL c) t
               \<and> f_out t = f_out s
               \<and> msgs t = msgs s @
                   [(FERROR, Batch_too_new r (protocol_version (sub_protocol_step c opt s)))]))
       \<and> (remote_protocol s \<noteq> 0 \<and> protocol_version s < remote_protocol s \<longrightarrow>
          (\<exists>t. setup_protocol c opt s = Exited (RERR_PROTOCOL c) t
               \<and> f_out t = f_out s
               \<and> msgs t = msgs s @
                   [(FERROR, Batch_too_new (remote_protocol s) (protocol_version s))]))
       \<and> f_out (state_of (setup_protocol c opt s)) =
           f_out s @ (case setup_protocol c opt s of
                        Returned t \<Rightarrow> if am_server opt \<noteq> 0 then [checksum_seed t] else []
                      | Exited n t \<Rightarrow> [] | Io_failed t \<Rightarrow> [])"
proof (intro conjI impI)
  assume a: "remote_protocol s = 0 \<and> f_in s = r # rest
            \<and> protocol_version (sub_protocol_step c opt s) < r"
  obtain u where u: "exchange_versions c opt (alloc_extras c opt s) = Returned u"
    "remote_protocol u = r"
    "protocol_version u = min (protocol_version (sub_protocol_step c opt (alloc_extras c opt s))) r"
    "f_out u = f_out (alloc_extras c opt s)"
    using exchange_versions_live [of "alloc_extras c opt s" r rest c opt] a assms
    by (auto simp: alloc_extras_keeps)
  have pv: "protocol_version u = protocol_version (sub_protocol_step c opt s)"
    using u(3) a by (simp add: sub_protocol_step_alloc_extras)
  have m: "msgs u = msgs s"
    using exchange_versions_keeps(6) [of c opt "alloc_extras c opt s"] u(1)
    by (simp add: alloc_extras_keeps)
  have "setup_protocol c opt s =
          Exited (RERR_PROTOCOL c)
            (rprintf FERROR (Batch_too_new (remote_protocol u) (protocol_version u)) u)"
    using version_checks_replay_newer [OF assms, of u c] u(1,2) pv a
    by (simp add: setup_protocol_unfold)
  then show "\<exists>t. setup_protocol c opt s = Exited (RERR_PROTOCOL c) t
               \<and> f_out t = f_out s
               \<and> msgs t = msgs s @
                   [(FERROR, Batch_too_new r (protocol_version (sub_protocol_step c opt s)))]"
    using u(2,4) pv m by (simp add: rprintf_def alloc_extras_keeps)
next
  assume a: "remote_protocol s \<noteq> 0 \<and> protocol_version s < remote_protocol s"
  have "exchange_versions c opt (alloc_extras c opt s) = Returned (alloc_extras c opt s)"
    using a by (simp add: exchange_versions_def alloc_extras_keeps)
  then have "setup_protocol c opt s =
          Exited (RERR_PROTOCOL c)
            (rprintf FERROR (Batch_too_new (remote_protocol s) (protocol_version s))
               (alloc_extras c opt s))"
    using version_checks_replay_newer [OF assms, of "alloc_extras c opt s" c] a
    by (simp add: setup_protocol_unfold alloc_extras_keeps)
  then show "\<exists>t. setup_protocol c opt s = Exited (RERR_PROTOCOL c) t
               \<and> f_out t = f_out s
               \<and> msgs t = msgs s @
                   [(FERROR, Batch_too_new (remote_protocol s) (protocol_version s))]"
    by (simp add: rprintf_def alloc_extras_keeps)
next
  show "f_out (state_of (setup_protocol c opt s)) =
           f_out s @ (case setup_protocol c opt s of
                        Returned t \<Rightarrow> if am_server opt \<noteq> 0 then [checksum_seed t] else []
                      | Exited n t \<Rightarrow> [] | Io_failed t \<Rightarrow> [])"
    by (rule setup_protocol_replay_out [OF assms])
qed

theorem replay_newer_version_fails_witness:
  "protocol_version (sub_protocol_step (rsync_h 0)
       (default_options\<lparr>read_batch := 1, local_server := 1\<rparr>) (fresh_state 30 [31, 7])) < 31
   \<and> setup_protocol (rsync_h 0) (default_options\<lparr>read_batch := 1, local_server := 1\<rparr>)
         (fresh_state 30 [31, 7])
     = Exited 2 (state_of (setup_protocol (rsync_h 0)
         (default_options\<lparr>read_batch := 1, local_server := 1\<rparr>) (fresh_state 30 [31, 7])))
   \<and> f_out (state_of (setup_protocol (rsync_h 0)
         (default_options\<lparr>read_batch := 1, local_server := 1\<rparr>) (fresh_state 30 [31, 7]))) = []
   \<and> msgs (state_of (setup_protocol (rsync_h 0)
         (default_options\<lparr>read_batch := 1, local_server := 1\<rparr>) (fresh_state 30 [31, 7])))
     = [(FERROR, Batch_too_new 31 30)]
   \<and> msgs (state_of (setup_protocol (rsync_h 0)
         (default_options\<lparr>read_batch := 1, local_server := 1\<rparr>)
         ((fresh_state 30 [7])\<lparr>remote_protocol := 31\<rparr>)))
     = [(FERROR, Batch_too_new 31 30)]"
  using replay_newer_version_fails [where c = "rsync_h 0"
      and opt = "default_options\<lparr>read_batch := 1, local_server := 1\<rparr>"
      and s = "fresh_state 30 [31, 7]" and r = 31 and rest = "[7]"]
    replay_newer_version_fails [where c = "rsync_h 0"
      and opt = "default_options\<lparr>read_batch := 1, local_server := 1\<rparr>"
      and s = "(fresh_state 30 [7])\<lparr>remote_protocol := 31\<rparr>"]
  by (auto simp: example_defs sub_protocol_step_def)

text \<open>
  Claim C8, amended. The condition of line 220 does not ask for a path that is not
  empty: the first character of an empty path is the terminating NUL, which differs from
  a slash. When \<^verbatim>\<open>partial_dir\<close> is set and does not begin with a slash (the empty path
  included), and this side is not a server or is a local server, \<^verbatim>\<open>parse_rule\<close> is
  called once with the path, with the flags for a directory and for no prefixes, and with
  the perishable flag if and only if this side is not the sender or the negotiated version
  is 30 or more; otherwise it is not called. In both cases this part of the function
  raises no error: once the checks of the features have passed, \<^verbatim>\<open>setup_protocol\<close> does
  not exit. The perishable bit is taken to be a bit of its own, outside the two other
  flags.
\<close>

theorem partial_dir_rule_registered:
  assumes "(MATCHFLG_NO_PREFIXES c OR MATCHFLG_DIRECTORY c) AND MATCHFLG_PERISHABLE c = 0"
    and "MATCHFLG_PERISHABLE c \<noteq> 0"
    and "then_do (negotiate_version c opt s) (validate_features c opt) = Returned u"
  shows "(\<forall>n t. setup_protocol c opt s \<noteq> Exited n t)
       \<and> (case partial_dir opt of
            None \<Rightarrow> filter_list (state_of (setup_protocol c opt s)) = filter_list s
          | Some dir \<Rightarrow>
              if (dir = [] \<or> hd dir \<noteq> CHR ''/'')
                 \<and> (am_server opt = 0 \<or> local_server opt \<noteq> 0)
              then \<exists>rl. filter_list (state_of (setup_protocol c opt s)) = filter_list s @ [rl]
                     \<and> pattern rl = dir \<and> xflags rl = 0
                     \<and> mflags rl AND (MATCHFLG_NO_PREFIXES c OR MATCHFLG_DIRECTORY c)
                         = MATCHFLG_NO_PREFIXES c OR MATCHFLG_DIRECTORY c
                     \<and> (mflags rl AND MATCHFLG_PERISHABLE c \<noteq> 0 \<longleftrightarrow>
                          am_sender opt = 0
                          \<or> 30 \<le> protocol_version (state_of (setup_protocol c opt s)))
              else filter_list (state_of (setup_protocol c opt s)) = filter_list s)"
proof -
  have run: "setup_protocol c opt s = finish c opt u"
    using assms(3) by (simp add: setup_protocol_def)
  have fl: "filter_list u = filter_list s"
    using before_finish_keeps [of c opt s] assms(3) by simp
  show ?thesis
    using assms(1,2) fl
    by (simp add: run finish_not_Exited finish_filter_list finish_keeps
          partial_dir_rule_filter_list split: option.splits)
qed

theorem partial_dir_rule_registered_witness:
  "(MATCHFLG_NO_PREFIXES (rsync_h 0) OR MATCHFLG_DIRECTORY (rsync_h 0))
      AND MATCHFLG_PERISHABLE (rsync_h 0) = 0
   \<and> MATCHFLG_PERISHABLE (rsync_h 0) \<noteq> 0
   \<and> setup_protocol (rsync_h 0) (default_options\<lparr>partial_dir := Some ''.rsync-partial''\<rparr>)
        (fresh_state 30 [29, 7])
      \<noteq> Exited 2 (fresh_state 30 [29, 7])
   \<and> length (filter_list (state_of (setup_protocol (rsync_h 0)
        (default_options\<lparr>partial_dir := Some ''.rsync-partial''\<rparr>) (fresh_state 30 [29, 7])))) = 1
   \<and> pattern (last (filter_list (state_of (setup_protocol (rsync_h 0)
        (default_options\<lparr>partial_dir := Some ''.rsync-partial''\<rparr>) (fresh_state 30 [29, 7])))))
      = ''.rsync-partial''
   \<and> mflags (last (filter_list (state_of (setup_protocol (rsync_h 0)
        (default_options\<lparr>partial_dir := Some ''.rsync-partial''\<rparr>) (fresh_state 30 [29, 7])))))
        AND MATCHFLG_PERISHABLE (rsync_h 0) \<noteq> 0
   \<and> filter_list (state_of (setup_protocol (rsync_h 0)
        (default_options\<lparr>partial_dir := Some ''/var/partial''\<rparr>) (fresh_state 30 [29, 7]))) = []"
  using partial_dir_rule_registered [where c = "rsync_h 0"
      and opt = "default_options\<lparr>partial_dir := Some ''/var/partial''\<rparr>"
      and s = "fresh_state 30 [29, 7]"
      and u = "state_of (then_do (negotiate_version (rsync_h 0)
                 (default_options\<lparr>partial_dir := Some ''/var/partial''\<rparr>)
                 (fresh_state 30 [29, 7]))
               (validate_features (rsync_h 0)
                 (default_options\<lparr>partial_dir := Some ''/var/partial''\<rparr>)))"]
    partial_dir_rule_registered [where c = "rsync_h 0"
      and opt = "default_options\<lparr>partial_dir := Some ''.rsync-partial''\<rparr>"
      and s = "fresh_state 30 [29, 7]"
      and u = "state_of (then_do (negotiate_version (rsync_h 0)
                 (default_options\<lparr>partial_dir := Some ''.rsync-partial''\<rparr>)
                 (fresh_state 30 [29, 7]))
               (validate_features (rsync_h 0)
                 (default_options\<lparr>partial_dir := Some ''.rsync-partial''\<rparr>)))"]
  by (auto simp: example_defs negotiate_defs validate_features_def checks_30_def checks_29_def
        delete_default_def)

text \<open>
  The claim as it was written fails for the empty path: it is not a path that is not
  empty, and \<^verbatim>\<open>parse_rule\<close> is called with it all the same.
\<close>

theorem empty_partial_dir_counterexample:
  "filter_list (state_of (setup_protocol (rsync_h 0) (default_options\<lparr>partial_dir := Some ''''\<rparr>)
      (fresh_state 30 [30, 7]))) = [\<lparr>pattern = '''', mflags = 524864, xflags = 0\<rparr>]"
  by (simp add: model_defs example_defs)



text \<open>
  Claim C10. When the checks of the versions pass and the negotiated version is 30 or
  more, no request makes the negotiation fail on a feature: the validation of lines 148 to
  218 returns without printing anything, whatever is requested, and \<^verbatim>\<open>setup_protocol\<close>
  does not exit and prints nothing after the checks of the versions.
\<close>

theorem no_feature_error_from_30:
  assumes "negotiate_version c opt start = Returned s" and "30 \<le> protocol_version s"
  shows "(\<exists>t. validate_features c opt s = Returned t \<and> msgs t = msgs s)
       \<and> (\<forall>n t. setup_protocol c opt start \<noteq> Exited n t)
       \<and> msgs (state_of (setup_protocol c opt start)) = msgs s"
proof -
  obtain t where t: "validate_features c opt s = Returned t" "msgs t = msgs s"
    using validate_features_from_30 [OF assms(2)] by blast
  show ?thesis
    using t assms(1) by (simp add: setup_protocol_def finish_not_Exited finish_keeps)
qed

theorem no_feature_error_from_30_witness:
  "30 \<le> protocol_version (state_of (negotiate_version (rsync_h 0)
       (default_options\<lparr>am_sender := 1, max_delete := 0, preserve_acls := 1,
          preserve_xattrs := 1, fuzzy_basis := 1, basis_dir_cnt := 2, inplace := 1,
          prune_empty_dirs := 1\<rparr>) (fresh_state 30 [30, 7])))
   \<and> setup_protocol (rsync_h 0)
       (default_options\<lparr>am_sender := 1, max_delete := 0, preserve_acls := 1,
          preserve_xattrs := 1, fuzzy_basis := 1, basis_dir_cnt := 2, inplace := 1,
          prune_empty_dirs := 1\<rparr>) (fresh_state 30 [30, 7])
      \<noteq> Exited 2 (fresh_state 30 [30, 7])
   \<and> msgs (state_of (setup_protocol (rsync_h 0)
       (default_options\<lparr>am_sender := 1, max_delete := 0, preserve_acls := 1,
          preserve_xattrs := 1, fuzzy_basis := 1, basis_dir_cnt := 2, inplace := 1,
          prune_empty_dirs := 1\<rparr>) (fresh_state 30 [30, 7]))) = []"
  using no_feature_error_from_30 [where c = "rsync_h 0"
      and opt = "default_options\<lparr>am_sender := 1, max_delete := 0, preserve_acls := 1,
          preserve_xattrs := 1, fuzzy_basis := 1, basis_dir_cnt := 2, inplace := 1,
          prune_empty_dirs := 1\<rparr>"
      and start = "fresh_state 30 [30, 7]"
      and s = "state_of (negotiate_version (rsync_h 0)
       (default_options\<lparr>am_sender := 1, max_delete := 0, preserve_acls := 1,
          preserve_xattrs := 1, fuzzy_basis := 1, basis_dir_cnt := 2, inplace := 1,
          prune_empty_dirs := 1\<rparr>) (fresh_state 30 [30, 7]))"]
  by (simp add: example_defs negotiate_defs)

end
